theory Spec2Isabelle
  imports Complex_Main
begin

section \<open>Python values held by the session\<close>

text \<open>
  The session of a request is a Python dict from string keys to the values that the
  session cookie can carry: \<open>None\<close>, booleans, numbers, strings, lists and dicts with
  string keys. A Python \<open>str\<close> is modelled as a \<open>string\<close> in which every \<open>char\<close>
  stands for one character, so that \<open>length\<close> is Python's \<open>len\<close>. A dict value is
  the list of its items, looked up with \<open>map_of\<close>.
\<close>

datatype pyval =
    PyNone
  | PyBool bool
  | PyInt int
  | PyFloat real
  | PyStr string
  | PyList "pyval list"
  | PyDict "(string \<times> pyval) list"

type_synonym session = "string \<rightharpoonup> pyval"

text \<open>Python's truth value of an object, as tested by \<open>if not user_data\<close>.\<close>

fun truthy :: "pyval \<Rightarrow> bool" where
  "truthy PyNone = False"
| "truthy (PyBool b) = b"
| "truthy (PyInt i) = (i \<noteq> 0)"
| "truthy (PyFloat x) = (x \<noteq> 0)"
| "truthy (PyStr s) = (s \<noteq> [])"
| "truthy (PyList xs) = (xs \<noteq> [])"
| "truthy (PyDict kvs) = (kvs \<noteq> [])"

text \<open>\<open>session.get(key)\<close>: the value, or \<open>None\<close> when the key is missing.\<close>

definition session_get :: "session \<Rightarrow> string \<Rightarrow> pyval" where
  "session_get s key = (case s key of None \<Rightarrow> PyNone | Some v \<Rightarrow> v)"

text \<open>\<open>session.pop(key, default)\<close>: the value and the session without the key.\<close>

definition session_pop :: "session \<Rightarrow> string \<Rightarrow> pyval \<Rightarrow> pyval \<times> session" where
  "session_pop s key dflt =
     (case s key of None \<Rightarrow> (dflt, s) | Some v \<Rightarrow> (v, s(key := None)))"

text \<open>\<open>session.clear()\<close>.\<close>

definition session_clear :: "session \<Rightarrow> session" where
  "session_clear s = Map.empty"

text \<open>\<open>s.startswith(prefix)\<close>.\<close>

definition startswith :: "string \<Rightarrow> string \<Rightarrow> bool" where
  "startswith s pre = (take (length pre) s = pre)"

section \<open>Errors and responses\<close>

text \<open>
  Every exception that the modelled code can raise. \<open>HTTPException\<close> carries its
  status code and detail; \<open>ValidationError\<close> is pydantic's, \<open>TypeError\<close> is raised by
  \<open>User(**user_data)\<close> when \<open>user_data\<close> is not a mapping, \<open>AttributeError\<close> by a
  method call on an object that has no such method, and \<open>UnknownHashError\<close> by the
  password hasher on a hash that it cannot identify.
\<close>

datatype error =
    HTTPException (status_code: nat) (detail: string)
  | ValidationError
  | TypeError
  | AttributeError
  | UnknownHashError

datatype Response =
    TemplateResponse string "string option" nat
  | RedirectResponse string nat
  | JSONResponse string nat

section \<open>models.py\<close>

record User =
  username :: string
  name :: string
  email :: "string option"
  role :: string

text \<open>
  \<open>UserInDB\<close> has the fields of \<open>User\<close> and the password hash; it carries no length
  bounds. The rows of the \<open>users\<close> table have this shape.
\<close>

record UserInDB = User +
  hashed_pass :: string

text \<open>
  A \<open>str\<close> field with \<open>min_length\<close> and \<open>max_length\<close>: the value must be a string
  whose length lies within the bounds.
\<close>

fun Field_str :: "nat \<Rightarrow> nat \<Rightarrow> pyval \<Rightarrow> error + string" where
  "Field_str lo hi (PyStr s) =
     (if lo \<le> length s \<and> length s \<le> hi then Inr s else Inl ValidationError)"
| "Field_str lo hi v = Inl ValidationError"

text \<open>A plain \<open>str\<close> field.\<close>

fun plain_str :: "pyval \<Rightarrow> error + string" where
  "plain_str (PyStr s) = Inr s"
| "plain_str v = Inl ValidationError"

text \<open>A \<open>str | None\<close> field.\<close>

fun optional_str :: "pyval \<Rightarrow> error + string option" where
  "optional_str PyNone = Inr None"
| "optional_str (PyStr s) = Inr (Some s)"
| "optional_str v = Inl ValidationError"

text \<open>
  \<open>User(**kwargs)\<close>: \<open>username\<close> and \<open>name\<close> are required, \<open>email\<close> defaults to
  \<open>None\<close> and \<open>role\<close> to \<open>"user"\<close>; other keys are ignored. Any field that fails makes
  the construction fail with a \<open>ValidationError\<close>.
\<close>

definition User_init :: "(string \<times> pyval) list \<Rightarrow> error + User" where
  "User_init kwargs =
     (case (case map_of kwargs ''username'' of
              None \<Rightarrow> Inl ValidationError | Some v \<Rightarrow> Field_str 3 50 v) of
        Inl e \<Rightarrow> Inl e
      | Inr u \<Rightarrow>
     (case (case map_of kwargs ''name'' of
              None \<Rightarrow> Inl ValidationError | Some v \<Rightarrow> Field_str 1 100 v) of
        Inl e \<Rightarrow> Inl e
      | Inr n \<Rightarrow>
     (case (case map_of kwargs ''email'' of
              None \<Rightarrow> Inr None | Some v \<Rightarrow> optional_str v) of
        Inl e \<Rightarrow> Inl e
      | Inr m \<Rightarrow>
     (case (case map_of kwargs ''role'' of
              None \<Rightarrow> Inr ''user'' | Some v \<Rightarrow> plain_str v) of
        Inl e \<Rightarrow> Inl e
      | Inr r \<Rightarrow> Inr \<lparr>username = u, name = n, email = m, role = r\<rparr>))))"

text \<open>\<open>User(**user_data)\<close>: unpacking anything but a dict raises \<open>TypeError\<close>.\<close>

fun User_unpack :: "pyval \<Rightarrow> error + User" where
  "User_unpack (PyDict kwargs) = User_init kwargs"
| "User_unpack v = Inl TypeError"

text \<open>\<open>user.model_dump()\<close>: the dict of the four fields.\<close>

definition model_dump :: "User \<Rightarrow> pyval" where
  "model_dump user =
     PyDict [(''username'', PyStr (username user)),
             (''name'', PyStr (name user)),
             (''email'', (case email user of None \<Rightarrow> PyNone | Some e \<Rightarrow> PyStr e)),
             (''role'', PyStr (role user))]"

text \<open>The bounds that the fields of \<open>User\<close> declare.\<close>

definition User_valid :: "User \<Rightarrow> bool" where
  "User_valid user =
     (3 \<le> length (username user) \<and> length (username user) \<le> 50 \<and>
      1 \<le> length (name user) \<and> length (name user) \<le> 100)"

section \<open>auth.py\<close>

record Request =
  session :: session
  url_path :: string

definition No_autenticado :: string where
  "No_autenticado = ''No autenticado''"

definition Sesion_invalida :: string where
  "Sesion_invalida = ''Sesi'' @ [CHR 0xF3] @ ''n inv'' @ [CHR 0xE1] @ ''lida''"

definition Acceso_denegado :: string where
  "Acceso_denegado = ''Acceso denegado: se requieren permisos de administrador''"

text \<open>
  \<open>get_current_user\<close> returns the user or raises, and may write to the session of the
  request: the result is paired with the session as the call leaves it.
\<close>

definition get_current_user :: "Request \<Rightarrow> (error + User) \<times> session" where
  "get_current_user request =
     (let user_data = session_get (session request) ''user'' in
      if \<not> truthy user_data then
        (Inl (HTTPException 401 No_autenticado),
         (session request)(''redirect_after_login'' \<mapsto> PyStr (url_path request)))
      else
        (case User_unpack user_data of
           Inr user \<Rightarrow> (Inr user, session request)
         | Inl e \<Rightarrow>
             (Inl (HTTPException 401 Sesion_invalida), session_clear (session request))))"

definition get_optional_user :: "Request \<Rightarrow> User option \<times> session" where
  "get_optional_user request =
     (let user_data = session_get (session request) ''user'' in
      if \<not> truthy user_data then (None, session request)
      else
        (case User_unpack user_data of
           Inr user \<Rightarrow> (Some user, session request)
         | Inl e \<Rightarrow> (None, session request)))"

definition require_admin :: "User \<Rightarrow> error + User" where
  "require_admin user =
     (if role user \<noteq> ''admin'' then Inl (HTTPException 403 Acceso_denegado)
      else Inr user)"

section \<open>database.py\<close>

text \<open>
  \<open>pwd_context\<close> is passlib's \<open>CryptContext(schemes=["argon2"])\<close>, a library object
  outside the repository. Its \<open>verify\<close> method is a parameter of the model: given the
  plaintext and the stored hash it answers whether they match, or raises.
\<close>

type_synonym CryptContext = "string \<Rightarrow> string \<Rightarrow> error + bool"

definition verify_password :: "CryptContext \<Rightarrow> string \<Rightarrow> string \<Rightarrow> error + bool" where
  "verify_password pwd_context plain_password hashed_password =
     pwd_context plain_password hashed_password"

text \<open>
  A stand-in context for concrete instances only; the general statements hold of every
  context. Like passlib it raises \<open>UnknownHashError\<close> on a token that does not begin
  with \<open>$argon2\<close>. Its tokens are not real argon2 tokens: a token is \<open>$argon2$\<close>
  followed by the password, and the comparison is a toy.
\<close>

definition stub_context :: CryptContext where
  "stub_context plain hashed =
     (if startswith hashed ''$argon2'' then Inr (hashed = ''$argon2$'' @ plain)
      else Inl UnknownHashError)"

section \<open>services.py\<close>

text \<open>
  The \<open>users\<close> table is the list of its rows; the query
  \<open>SELECT ... WHERE username = :username\<close> followed by \<open>fetchone()\<close> yields the first
  row with that username, or \<open>None\<close>.
\<close>

definition fetchone :: "UserInDB list \<Rightarrow> string \<Rightarrow> UserInDB option" where
  "fetchone db uname = find (\<lambda>row. username row = uname) db"

definition authenticate_user ::
  "CryptContext \<Rightarrow> UserInDB list \<Rightarrow> string \<Rightarrow> string \<Rightarrow> error + User option" where
  "authenticate_user pwd_context db uname password =
     (case fetchone db uname of
        None \<Rightarrow> Inr None
      | Some result \<Rightarrow>
          (case verify_password pwd_context password (hashed_pass result) of
             Inl e \<Rightarrow> Inl e
           | Inr matches \<Rightarrow>
               if \<not> matches then Inr None
               else
                 (case User_init
                         [(''username'', PyStr (username result)),
                          (''name'', PyStr (name result)),
                          (''email'',
                             (case email result of None \<Rightarrow> PyNone | Some e \<Rightarrow> PyStr e)),
                          (''role'', PyStr (role result))] of
                    Inl e \<Rightarrow> Inl e
                  | Inr user \<Rightarrow> Inr (Some user))))"

section \<open>routes/public.py\<close>

definition Usuario_incorrectos :: string where
  "Usuario_incorrectos = ''Usuario o contrase'' @ [CHR 0xF1] @ ''a incorrectos''"

text \<open>
  The handlers return a response or raise, and may write to the session. A template
  response is its template, the \<open>error\<close> value of its context and its status code.
\<close>

definition login_page :: "Request \<Rightarrow> string option \<Rightarrow> Response \<times> session" where
  "login_page request next =
     (TemplateResponse ''login.html'' None 200,
      (case next of
         None \<Rightarrow> session request
       | Some n \<Rightarrow>
           if n \<noteq> [] then (session request)(''redirect_after_login'' \<mapsto> PyStr n)
           else session request))"

definition login ::
  "CryptContext \<Rightarrow> UserInDB list \<Rightarrow> Request \<Rightarrow> string \<Rightarrow> string
     \<Rightarrow> (error + Response) \<times> session" where
  "login pwd_context db request uname password =
     (case authenticate_user pwd_context db uname password of
        Inl e \<Rightarrow> (Inl e, session request)
      | Inr None \<Rightarrow>
          (Inr (TemplateResponse ''login.html'' (Some Usuario_incorrectos) 401),
           session request)
      | Inr (Some user) \<Rightarrow>
          (let s1 = (session request)(''user'' \<mapsto> model_dump user);
               (redirect_url, s2) =
                  session_pop s1 ''redirect_after_login'' (PyStr ''/dashboard'')
           in (case redirect_url of
                 PyStr url \<Rightarrow>
                   (Inr (RedirectResponse
                           (if \<not> startswith url ''/'' then ''/dashboard'' else url) 303),
                    s2)
               | _ \<Rightarrow> (Inl AttributeError, s2))))"

definition logout :: "Request \<Rightarrow> Response \<times> session" where
  "logout request = (RedirectResponse ''/'' 303, session_clear (session request))"

section \<open>main.py\<close>

text \<open>
  The application registers one handler for status 401 and one for status 403. Any
  other \<open>HTTPException\<close> is answered by the framework's default handler with a JSON
  response of its detail and status code. An exception that is not an
  \<open>HTTPException\<close> has no handler and leaves the application as an unhandled fault:
  the value is \<open>None\<close>.
\<close>

fun exception_handler :: "error \<Rightarrow> Response option" where
  "exception_handler (HTTPException code d) =
     (if code = 401 then Some (RedirectResponse ''/login'' 303)
      else if code = 403 then Some (TemplateResponse ''error_403.html'' (Some d) 403)
      else Some (JSONResponse d code))"
| "exception_handler e = None"

section \<open>Auxiliary definitions\<close>


text \<open>
  Example rows of the \<open>users\<close> table: an administrator, an ordinary user, and a
  row whose stored hash is not an argon2 token. \<open>alice_identity\<close> is the \<open>User\<close>
  built from the first row.
\<close>

definition alice :: UserInDB where
  "alice = \<lparr>username = ''alice'', name = ''Alice'', email = Some ''alice@example.org'',
             role = ''admin'', hashed_pass = ''$argon2$secret''\<rparr>"

definition al :: UserInDB where
  "al = \<lparr>username = ''alan'', name = ''Alan'', email = None,
          role = ''user'', hashed_pass = ''$argon2$secret''\<rparr>"

definition carol :: UserInDB where
  "carol = \<lparr>username = ''carol'', name = ''Carol'', email = None,
             role = ''user'', hashed_pass = ''secret''\<rparr>"

definition alice_identity :: User where
  "alice_identity = \<lparr>username = ''alice'', name = ''Alice'',
                      email = Some ''alice@example.org'', role = ''admin''\<rparr>"

section \<open>Basic facts\<close>

lemma User_unpack_model_dump:
  "User_valid u \<Longrightarrow> User_unpack (model_dump u) = Inr u"
  by (cases u) (simp add: User_valid_def model_dump_def User_init_def split: option.splits)

lemma truthy_model_dump: "truthy (model_dump u)"
  by (simp add: model_dump_def)

lemma authenticate_user_None_iff:
  "authenticate_user pwd_context db uname password = Inr None \<longleftrightarrow>
     (fetchone db uname = None \<or>
      (\<exists>row. fetchone db uname = Some row \<and>
             verify_password pwd_context password (hashed_pass row) = Inr False))"
  by (auto simp: authenticate_user_def split: option.splits sum.splits)

lemma fetchone_alice: "fetchone [alice, al, carol] ''alice'' = Some alice"
  by (simp add: fetchone_def alice_def)

lemma fetchone_carol: "fetchone [alice, al, carol] ''carol'' = Some carol"
  by (simp add: fetchone_def alice_def al_def carol_def)

lemma fetchone_bob: "fetchone [alice, al, carol] ''bob'' = None"
  by (simp add: fetchone_def alice_def al_def carol_def)

lemma verify_alice_secret:
  "verify_password stub_context ''secret'' (hashed_pass alice) = Inr True"
  by (simp add: verify_password_def stub_context_def startswith_def alice_def)

lemma verify_alice_wrong:
  "verify_password stub_context ''guess'' (hashed_pass alice) = Inr False"
  by (simp add: verify_password_def stub_context_def startswith_def alice_def)

lemma verify_carol:
  "verify_password stub_context ''secret'' (hashed_pass carol) = Inl UnknownHashError"
  by (simp add: verify_password_def stub_context_def startswith_def carol_def)

lemma authenticate_alice:
  "authenticate_user stub_context [alice, al, carol] ''alice'' ''secret'' =
     Inr (Some alice_identity)"
proof -
  have "User_init [(''username'', PyStr (username alice)), (''name'', PyStr (name alice)),
          (''email'', (case email alice of None \<Rightarrow> PyNone | Some e \<Rightarrow> PyStr e)),
          (''role'', PyStr (role alice))] = Inr alice_identity"
    by (simp add: User_init_def alice_def alice_identity_def)
  then show ?thesis
    by (simp add: authenticate_user_def fetchone_alice verify_alice_secret)
qed

section \<open>The authorization dependency chain\<close>

text \<open>
  Claim C1, as the code has it. When the session value \<open>user\<close> is absent, or present
  but falsy (\<open>None\<close>, an empty dict, string or list, zero, \<open>False\<close>),
  \<open>get_current_user\<close> stores the path of the request under \<open>redirect_after_login\<close>
  and raises the 401 exception "No autenticado". When the value is truthy but \<open>User\<close>
  cannot be built from it, \<open>get_current_user\<close> raises the 401 exception for an invalid
  session and records nothing: the session it leaves has no \<open>redirect_after_login\<close>.
\<close>

theorem get_current_user_unauthenticated:
  "((session request ''user'' = None \<or> \<not> truthy (session_get (session request) ''user'')) \<longrightarrow>
      get_current_user request =
        (Inl (HTTPException 401 No_autenticado),
         (session request)(''redirect_after_login'' \<mapsto> PyStr (url_path request)))) \<and>
   (truthy (session_get (session request) ''user'') \<and>
    isl (User_unpack (session_get (session request) ''user'')) \<longrightarrow>
      fst (get_current_user request) = Inl (HTTPException 401 Sesion_invalida) \<and>
      snd (get_current_user request) ''redirect_after_login'' = None)"
  by (auto simp: get_current_user_def session_get_def session_clear_def Let_def
           split: sum.splits option.splits)

text \<open>
  Two instances: a request to \<open>/profile\<close> with an empty session, and one whose
  \<open>user\<close> value is a string.
\<close>

theorem get_current_user_unauthenticated_witness:
  "get_current_user \<lparr>session = Map.empty, url_path = ''/profile''\<rparr> =
     (Inl (HTTPException 401 No_autenticado), [''redirect_after_login'' \<mapsto> PyStr ''/profile'']) \<and>
   fst (get_current_user \<lparr>session = [''user'' \<mapsto> PyStr ''tampered''], url_path = ''/profile''\<rparr>) =
     Inl (HTTPException 401 Sesion_invalida) \<and>
   snd (get_current_user \<lparr>session = [''user'' \<mapsto> PyStr ''tampered''], url_path = ''/profile''\<rparr>)
     ''redirect_after_login'' = None"
  using get_current_user_unauthenticated [of "\<lparr>session = Map.empty, url_path = ''/profile''\<rparr>"]
        get_current_user_unauthenticated
          [of "\<lparr>session = [''user'' \<mapsto> PyStr ''tampered''], url_path = ''/profile''\<rparr>"]
  by (simp add: session_get_def)

text \<open>
  Claim C1 as stated fails on a corrupt value: for a dict whose username is too short,
  the session is emptied and the path \<open>/profile\<close> is not recorded.
\<close>

theorem get_current_user_records_path_counterexample:
  "isl (User_unpack (PyDict [(''username'', PyStr ''al''), (''name'', PyStr ''Al'')])) \<and>
   get_current_user
     \<lparr>session = [''user'' \<mapsto> PyDict [(''username'', PyStr ''al''), (''name'', PyStr ''Al'')]],
      url_path = ''/profile''\<rparr> =
     (Inl (HTTPException 401 Sesion_invalida), Map.empty) \<and>
   snd (get_current_user
     \<lparr>session = [''user'' \<mapsto> PyDict [(''username'', PyStr ''al''), (''name'', PyStr ''Al'')]],
      url_path = ''/profile''\<rparr>) ''redirect_after_login'' \<noteq> Some (PyStr ''/profile'')"
  by (simp add: get_current_user_def session_get_def session_clear_def User_init_def)

text \<open>
  Claim C2, as the code has it. For every session whose \<open>user\<close> value is present and
  truthy but from which \<open>User\<close> cannot be built, \<open>get_current_user\<close> clears the whole
  session, every key of it, and raises a 401 exception.
\<close>

theorem get_current_user_corrupt_clears:
  "session request ''user'' = Some v \<Longrightarrow> truthy v \<Longrightarrow> User_unpack v = Inl e \<Longrightarrow>
     get_current_user request = (Inl (HTTPException 401 Sesion_invalida), Map.empty)"
  by (simp add: get_current_user_def session_get_def session_clear_def)

text \<open>An instance: the dict lacks \<open>name\<close>, and the session holds another key.\<close>

theorem get_current_user_corrupt_clears_witness:
  "get_current_user
     \<lparr>session = [''user'' \<mapsto> PyDict [(''username'', PyStr ''alice'')], ''theme'' \<mapsto> PyStr ''dark''],
      url_path = ''/profile''\<rparr> =
     (Inl (HTTPException 401 Sesion_invalida), Map.empty)"
  by (rule get_current_user_corrupt_clears
            [where v = "PyDict [(''username'', PyStr ''alice'')]" and e = ValidationError])
     (simp_all add: User_init_def)

text \<open>
  Claim C2 as stated fails on the empty dict: it is present and lacks both required
  fields, but it is falsy, so the session is not cleared; the other key stays and the
  path is recorded.
\<close>

theorem get_current_user_empty_dict_counterexample:
  "User_unpack (PyDict []) = Inl ValidationError \<and>
   get_current_user
     \<lparr>session = [''user'' \<mapsto> PyDict [], ''theme'' \<mapsto> PyStr ''dark''], url_path = ''/profile''\<rparr> =
     (Inl (HTTPException 401 No_autenticado),
      [''user'' \<mapsto> PyDict [], ''theme'' \<mapsto> PyStr ''dark'',
       ''redirect_after_login'' \<mapsto> PyStr ''/profile'']) \<and>
   snd (get_current_user
     \<lparr>session = [''user'' \<mapsto> PyDict [], ''theme'' \<mapsto> PyStr ''dark''], url_path = ''/profile''\<rparr>)
     ''theme'' = Some (PyStr ''dark'')"
  by (simp add: get_current_user_def session_get_def User_init_def)

section \<open>The session identity codec\<close>

text \<open>
  Claim C3. For every \<open>User\<close> within the bounds of its fields (username of 3 to 50
  characters, name of 1 to 100), building \<open>User\<close> from \<open>model_dump\<close> of it gives it
  back, and \<open>get_current_user\<close> returns it from a session that holds the dump under
  \<open>user\<close>, leaving the session as it is.
\<close>

theorem model_dump_roundtrip:
  "User_valid ident \<Longrightarrow>
     User_unpack (model_dump ident) = Inr ident \<and>
     get_current_user \<lparr>session = s(''user'' \<mapsto> model_dump ident), url_path = p\<rparr> =
       (Inr ident, s(''user'' \<mapsto> model_dump ident))"
  by (simp add: get_current_user_def session_get_def truthy_model_dump User_unpack_model_dump)

text \<open>An instance with no email.\<close>

theorem model_dump_roundtrip_witness:
  "User_unpack (model_dump \<lparr>username = ''alice'', name = ''Alice'', email = None, role = ''admin''\<rparr>) =
     Inr \<lparr>username = ''alice'', name = ''Alice'', email = None, role = ''admin''\<rparr> \<and>
   get_current_user
     \<lparr>session = [''user'' \<mapsto>
         model_dump \<lparr>username = ''alice'', name = ''Alice'', email = None, role = ''admin''\<rparr>],
      url_path = ''/admin''\<rparr> =
     (Inr \<lparr>username = ''alice'', name = ''Alice'', email = None, role = ''admin''\<rparr>,
      [''user'' \<mapsto>
         model_dump \<lparr>username = ''alice'', name = ''Alice'', email = None, role = ''admin''\<rparr>])"
  by (rule model_dump_roundtrip) (simp add: User_valid_def)

section \<open>The authenticator\<close>

text \<open>
  Claim C4. When no row has the username, whatever the password, and when a row has it
  but the password does not match its hash, \<open>authenticate_user\<close> returns the same
  value, \<open>None\<close>.
\<close>

theorem authenticate_user_invalid_credentials:
  "fetchone db uname = None \<or>
   (\<exists>row. fetchone db uname = Some row \<and>
          verify_password pwd_context password (hashed_pass row) = Inr False) \<Longrightarrow>
     authenticate_user pwd_context db uname password = Inr None"
  by (simp add: authenticate_user_None_iff)

text \<open>An unknown username, and a known one with a wrong password.\<close>

theorem authenticate_user_invalid_credentials_witness:
  "authenticate_user stub_context [alice, al, carol] ''bob'' ''secret'' = Inr None \<and>
   authenticate_user stub_context [alice, al, carol] ''alice'' ''guess'' = Inr None"
proof
  show "authenticate_user stub_context [alice, al, carol] ''bob'' ''secret'' = Inr None"
    by (rule authenticate_user_invalid_credentials) (simp add: fetchone_bob)
  show "authenticate_user stub_context [alice, al, carol] ''alice'' ''guess'' = Inr None"
    by (rule authenticate_user_invalid_credentials)
       (simp add: fetchone_alice verify_alice_wrong)
qed



section \<open>The redirect continuation\<close>

text \<open>
  Claim C6. With a path recorded under \<open>redirect_after_login\<close>, a successful login
  redirects to that path when it starts with \<open>/\<close> and to \<open>/dashboard\<close> otherwise,
  and removes the entry; a second successful login on the resulting session redirects
  to \<open>/dashboard\<close>.
\<close>

theorem login_consumes_redirect:
  assumes "authenticate_user pwd_context db uname password = Inr (Some user)"
    and "session request ''redirect_after_login'' = Some (PyStr p)"
  shows "login pwd_context db request uname password =
           (Inr (RedirectResponse (if startswith p ''/'' then p else ''/dashboard'') 303),
            (session request)(''user'' \<mapsto> model_dump user, ''redirect_after_login'' := None)) \<and>
         login pwd_context db
           (request\<lparr>session := snd (login pwd_context db request uname password)\<rparr>)
           uname password =
           (Inr (RedirectResponse ''/dashboard'' 303),
            (session request)(''user'' \<mapsto> model_dump user, ''redirect_after_login'' := None))"
  using assms
  by (auto simp: login_def session_pop_def startswith_def Let_def)

text \<open>
  The path \<open>/dashboard/reportes\<close> recorded by \<open>get_current_user\<close> is consumed once,
  and the target \<open>http://evil.example/x\<close> recorded by \<open>login_page\<close> is discarded.
\<close>

theorem login_consumes_redirect_witness:
  "fst (login stub_context [alice, al, carol]
     \<lparr>session = snd (get_current_user \<lparr>session = Map.empty, url_path = ''/dashboard/reportes''\<rparr>),
      url_path = ''/login''\<rparr> ''alice'' ''secret'') =
     Inr (RedirectResponse ''/dashboard/reportes'' 303) \<and>
   fst (login stub_context [alice, al, carol]
     \<lparr>session = snd (login stub_context [alice, al, carol]
        \<lparr>session = snd (get_current_user \<lparr>session = Map.empty, url_path = ''/dashboard/reportes''\<rparr>),
         url_path = ''/login''\<rparr> ''alice'' ''secret''),
      url_path = ''/login''\<rparr> ''alice'' ''secret'') =
     Inr (RedirectResponse ''/dashboard'' 303) \<and>
   fst (login stub_context [alice, al, carol]
     \<lparr>session = snd (login_page \<lparr>session = Map.empty, url_path = ''/login''\<rparr>
                       (Some ''http://evil.example/x'')),
      url_path = ''/login''\<rparr> ''alice'' ''secret'') =
     Inr (RedirectResponse ''/dashboard'' 303)"
proof -
  have r1: "session \<lparr>session = snd (get_current_user
                \<lparr>session = Map.empty, url_path = ''/dashboard/reportes''\<rparr>),
              url_path = ''/login''\<rparr> ''redirect_after_login'' =
            Some (PyStr ''/dashboard/reportes'')"
    by (simp add: get_current_user_def session_get_def)
  have r2: "session \<lparr>session = snd (login_page \<lparr>session = Map.empty, url_path = ''/login''\<rparr>
                (Some ''http://evil.example/x'')),
              url_path = ''/login''\<rparr> ''redirect_after_login'' =
            Some (PyStr ''http://evil.example/x'')"
    by (simp add: login_page_def)
  note t1 = login_consumes_redirect [OF authenticate_alice r1]
  note t2 = login_consumes_redirect [OF authenticate_alice r2]
  have s1: "startswith ''/dashboard/reportes'' ''/''"
    by (simp add: startswith_def)
  have s2: "\<not> startswith ''http://evil.example/x'' ''/''"
    by (simp add: startswith_def)
  have c1: "fst (login stub_context [alice, al, carol]
     \<lparr>session = snd (get_current_user \<lparr>session = Map.empty, url_path = ''/dashboard/reportes''\<rparr>),
      url_path = ''/login''\<rparr> ''alice'' ''secret'') =
     Inr (RedirectResponse ''/dashboard/reportes'' 303)"
    using t1 [THEN conjunct1] s1 by simp
  have c2: "fst (login stub_context [alice, al, carol]
     \<lparr>session = snd (login stub_context [alice, al, carol]
        \<lparr>session = snd (get_current_user \<lparr>session = Map.empty, url_path = ''/dashboard/reportes''\<rparr>),
         url_path = ''/login''\<rparr> ''alice'' ''secret''),
      url_path = ''/login''\<rparr> ''alice'' ''secret'') =
     Inr (RedirectResponse ''/dashboard'' 303)"
    using t1 [THEN conjunct2] by simp
  have c3: "fst (login stub_context [alice, al, carol]
     \<lparr>session = snd (login_page \<lparr>session = Map.empty, url_path = ''/login''\<rparr>
                       (Some ''http://evil.example/x'')),
      url_path = ''/login''\<rparr> ''alice'' ''secret'') =
     Inr (RedirectResponse ''/dashboard'' 303)"
    using t2 [THEN conjunct1] s2 by simp
  show ?thesis
    using c1 c2 c3 by (intro conjI)
qed

section \<open>The role check\<close>

text \<open>
  Claim C7. \<open>require_admin\<close> raises the 403 exception, whose detail says that
  administrator permissions are required, exactly when the role of the user is not
  \<open>admin\<close>; it returns an administrator unchanged.
\<close>

theorem require_admin_forbidden_iff:
  "(role user \<noteq> ''admin'' \<longrightarrow>
      require_admin user = Inl (HTTPException 403 Acceso_denegado)) \<and>
   (role user = ''admin'' \<longrightarrow> require_admin user = Inr user) \<and>
   (isl (require_admin user) \<longleftrightarrow> role user \<noteq> ''admin'')"
  by (simp add: require_admin_def)

text \<open>An ordinary user and an administrator.\<close>

theorem require_admin_forbidden_iff_witness:
  "require_admin \<lparr>username = ''usuario'', name = ''Usuario'', email = None, role = ''user''\<rparr> =
     Inl (HTTPException 403 ''Acceso denegado: se requieren permisos de administrador'') \<and>
   require_admin \<lparr>username = ''admin'', name = ''Admin'', email = None, role = ''admin''\<rparr> =
     Inr \<lparr>username = ''admin'', name = ''Admin'', email = None, role = ''admin''\<rparr>"
  using require_admin_forbidden_iff
          [of "\<lparr>username = ''usuario'', name = ''Usuario'', email = None, role = ''user''\<rparr>"]
        require_admin_forbidden_iff
          [of "\<lparr>username = ''admin'', name = ''Admin'', email = None, role = ''admin''\<rparr>"]
  by (simp add: Acceso_denegado_def)

section \<open>Unreadable stored hashes\<close>

text \<open>
  Claim C8, as the code has it. When the hasher raises on the stored hash of the row
  found for the username, \<open>authenticate_user\<close> raises the same error and so does the
  login handler: no response is produced and the session stays as it was.
\<close>

theorem hash_error_propagates:
  assumes "fetchone db uname = Some row"
    and "verify_password pwd_context password (hashed_pass row) = Inl e"
  shows "authenticate_user pwd_context db uname password = Inl e \<and>
         login pwd_context db request uname password = (Inl e, session request)"
  using assms by (simp add: authenticate_user_def login_def)

text \<open>An instance: the row whose stored hash is not an argon2 token.\<close>

theorem hash_error_propagates_witness:
  "authenticate_user stub_context [alice, al, carol] ''carol'' ''secret'' =
     Inl UnknownHashError \<and>
   login stub_context [alice, al, carol]
     \<lparr>session = [''redirect_after_login'' \<mapsto> PyStr ''/profile''], url_path = ''/login''\<rparr>
     ''carol'' ''secret'' =
     (Inl UnknownHashError, [''redirect_after_login'' \<mapsto> PyStr ''/profile''])"
  using hash_error_propagates [OF fetchone_carol verify_carol,
          of "\<lparr>session = [''redirect_after_login'' \<mapsto> PyStr ''/profile''], url_path = ''/login''\<rparr>"]
  by simp

text \<open>
  Claim C8 as stated fails: the error of the hasher leaves the login handler, and the
  application has no handler for it.
\<close>

theorem login_unknown_hash_counterexample:
  "verify_password stub_context ''secret'' ''secret'' = Inl UnknownHashError \<and>
   login stub_context
     [\<lparr>username = ''carol'', name = ''Carol'', email = None, role = ''user'',
       hashed_pass = ''secret''\<rparr>]
     \<lparr>session = Map.empty, url_path = ''/login''\<rparr> ''carol'' ''secret'' =
     (Inl UnknownHashError, Map.empty) \<and>
   exception_handler UnknownHashError = None"
  by (simp add: login_def authenticate_user_def fetchone_def verify_password_def
                stub_context_def startswith_def)

section \<open>Failed logins\<close>

text \<open>
  Claim C9. When the credentials fail (no row with the username, or a password that does
  not match), the login handler answers with the login page and status 401 and leaves
  the session as it was: \<open>user\<close> and \<open>redirect_after_login\<close> keep their values.
\<close>

theorem login_failure_session_unchanged:
  "fetchone db uname = None \<or>
   (\<exists>row. fetchone db uname = Some row \<and>
          verify_password pwd_context password (hashed_pass row) = Inr False) \<Longrightarrow>
     login pwd_context db request uname password =
       (Inr (TemplateResponse ''login.html'' (Some Usuario_incorrectos) 401), session request) \<and>
     snd (login pwd_context db request uname password) ''user'' = session request ''user'' \<and>
     snd (login pwd_context db request uname password) ''redirect_after_login'' =
       session request ''redirect_after_login''"
proof -
  assume "fetchone db uname = None \<or>
   (\<exists>row. fetchone db uname = Some row \<and>
          verify_password pwd_context password (hashed_pass row) = Inr False)"
  then have "authenticate_user pwd_context db uname password = Inr None"
    by (simp add: authenticate_user_None_iff)
  then show ?thesis by (simp add: login_def)
qed

text \<open>A wrong password and an unknown username, with a pending redirect target.\<close>

theorem login_failure_session_unchanged_witness:
  "login stub_context [alice, al, carol]
     \<lparr>session = [''redirect_after_login'' \<mapsto> PyStr ''/profile''], url_path = ''/login''\<rparr>
     ''alice'' ''guess'' =
     (Inr (TemplateResponse ''login.html'' (Some Usuario_incorrectos) 401),
      [''redirect_after_login'' \<mapsto> PyStr ''/profile'']) \<and>
   snd (login stub_context [alice, al, carol]
     \<lparr>session = [''redirect_after_login'' \<mapsto> PyStr ''/profile''], url_path = ''/login''\<rparr>
     ''alice'' ''guess'') ''user'' = None \<and>
   snd (login stub_context [alice, al, carol]
     \<lparr>session = [''redirect_after_login'' \<mapsto> PyStr ''/profile''], url_path = ''/login''\<rparr>
     ''bob'' ''secret'') ''redirect_after_login'' = Some (PyStr ''/profile'')"
proof -
  let ?r = "\<lparr>session = [''redirect_after_login'' \<mapsto> PyStr ''/profile''], url_path = ''/login''\<rparr>"
  have a: "fetchone [alice, al, carol] ''alice'' = None \<or>
     (\<exists>row. fetchone [alice, al, carol] ''alice'' = Some row \<and>
            verify_password stub_context ''guess'' (hashed_pass row) = Inr False)"
    by (simp add: fetchone_alice verify_alice_wrong)
  have b: "fetchone [alice, al, carol] ''bob'' = None \<or>
     (\<exists>row. fetchone [alice, al, carol] ''bob'' = Some row \<and>
            verify_password stub_context ''secret'' (hashed_pass row) = Inr False)"
    by (simp add: fetchone_bob)
  show ?thesis
    using login_failure_session_unchanged [OF a, of ?r]
          login_failure_session_unchanged [OF b, of ?r]
    by simp
qed

section \<open>The optional user\<close>

text \<open>
  Claim C10. \<open>get_optional_user\<close> never changes the session, and it returns \<open>None\<close>
  both when \<open>user\<close> is absent and when \<open>User\<close> cannot be built from its value.
\<close>

theorem get_optional_user_frame:
  "snd (get_optional_user request) = session request \<and>
   (session request ''user'' = None \<longrightarrow> fst (get_optional_user request) = None) \<and>
   (\<forall>v. session request ''user'' = Some v \<and> isl (User_unpack v) \<longrightarrow>
        fst (get_optional_user request) = None)"
  by (auto simp: get_optional_user_def session_get_def Let_def split: sum.splits)

text \<open>A session without \<open>user\<close>, and one with a corrupt \<open>user\<close>.\<close>

theorem get_optional_user_frame_witness:
  "get_optional_user \<lparr>session = [''theme'' \<mapsto> PyStr ''dark''], url_path = ''/''\<rparr> =
     (None, [''theme'' \<mapsto> PyStr ''dark'']) \<and>
   get_optional_user
     \<lparr>session = [''user'' \<mapsto> PyDict [(''username'', PyStr ''al'')]], url_path = ''/''\<rparr> =
     (None, [''user'' \<mapsto> PyDict [(''username'', PyStr ''al'')]])"
proof -
  have c: "isl (User_unpack (PyDict [(''username'', PyStr ''al'')]))"
    by (simp add: User_init_def)
  show ?thesis
    using get_optional_user_frame [of "\<lparr>session = [''theme'' \<mapsto> PyStr ''dark''], url_path = ''/''\<rparr>"]
          get_optional_user_frame
            [of "\<lparr>session = [''user'' \<mapsto> PyDict [(''username'', PyStr ''al'')]], url_path = ''/''\<rparr>"]
          c
    by (simp add: prod_eq_iff)
qed

end
